theory Spec2Isabelle
  imports Complex_Main "HOL-Library.Sublist"
begin

section \<open>Samples and tensors\<close>

text \<open>
  The pipeline of \<^verbatim>\<open>Predictor.predict\<close> (predict.py) works on torch tensors of
  floating-point samples. A sample is modelled as a real number or one of the three
  special values of the floating-point format; rounding and overflow are left out, the
  special values behave as in the format (a zero divided by a zero is not a number,
  every operation on a value that is not a number gives one again).

  A tensor of shape (1, channels, time) is the list of its channels; the leading
  dimension of extent one is left implicit.
\<close>

datatype sample = Fin real | PInf | NInf | NaN

type_synonym tensor = "sample list list"

fun isnan :: "sample \<Rightarrow> bool" where
  "isnan NaN = True"
| "isnan _ = False"

fun isinf :: "sample \<Rightarrow> bool" where
  "isinf PInf = True"
| "isinf NInf = True"
| "isinf _ = False"

fun isfinite :: "sample \<Rightarrow> bool" where
  "isfinite (Fin _) = True"
| "isfinite _ = False"

fun s_abs :: "sample \<Rightarrow> sample" where
  "s_abs (Fin x) = Fin \<bar>x\<bar>"
| "s_abs PInf = PInf"
| "s_abs NInf = PInf"
| "s_abs NaN = NaN"

text \<open>The maximum of torch: a value that is not a number wins.\<close>

fun s_max :: "sample \<Rightarrow> sample \<Rightarrow> sample" where
  "s_max NaN _ = NaN"
| "s_max _ NaN = NaN"
| "s_max PInf _ = PInf"
| "s_max _ PInf = PInf"
| "s_max NInf b = b"
| "s_max a NInf = a"
| "s_max (Fin x) (Fin y) = Fin (max x y)"

text \<open>Division of the format, a zero divisor counted as positive.\<close>

fun s_div :: "sample \<Rightarrow> sample \<Rightarrow> sample" where
  "s_div NaN _ = NaN"
| "s_div _ NaN = NaN"
| "s_div (Fin x) (Fin y) =
     (if y = 0 then (if x = 0 then NaN else if 0 < x then PInf else NInf)
      else Fin (x / y))"
| "s_div (Fin x) PInf = Fin 0"
| "s_div (Fin x) NInf = Fin 0"
| "s_div PInf (Fin y) = (if y < 0 then NInf else PInf)"
| "s_div NInf (Fin y) = (if y < 0 then PInf else NInf)"
| "s_div PInf PInf = NaN"
| "s_div PInf NInf = NaN"
| "s_div NInf PInf = NaN"
| "s_div NInf NInf = NaN"

text \<open>Multiplication by the literal \<^verbatim>\<open>0.5\<close>.\<close>

fun half :: "sample \<Rightarrow> sample" where
  "half (Fin x) = Fin (x / 2)"
| "half s = s"

datatype error =
    ValueError string
  | CalledProcessError
  | ZeroDivisionError
  | FileNotFoundError string
  | RuntimeError string

text \<open>\<^verbatim>\<open>t.shape[-1]\<close>: the extent of the time axis.\<close>

definition last_dim :: "tensor \<Rightarrow> nat" where
  "last_dim t = (case t of [] \<Rightarrow> 0 | c # _ \<Rightarrow> length c)"

text \<open>\<^verbatim>\<open>t[..., :n]\<close>: every channel cut to its first \<open>n\<close> samples; nothing is added
  to a shorter channel.\<close>

definition trunc :: "nat \<Rightarrow> tensor \<Rightarrow> tensor" where
  "trunc n t = map (take n) t"

text \<open>\<^verbatim>\<open>t / a\<close> for a tensor \<open>a\<close> of a single value.\<close>

definition divide :: "tensor \<Rightarrow> sample \<Rightarrow> tensor" where
  "divide t a = map (map (\<lambda>s. s_div s a)) t"

text \<open>\<^verbatim>\<open>0.5 * t * 0.5\<close>.\<close>

definition quarter :: "tensor \<Rightarrow> tensor" where
  "quarter t = map (map (\<lambda>s. half (half s))) t"

text \<open>\<^verbatim>\<open>t.abs().max()\<close>; torch raises on a tensor without elements.\<close>

definition abs_max :: "tensor \<Rightarrow> error + sample" where
  "abs_max t =
     (case concat t of
        [] \<Rightarrow> Inl (RuntimeError ''max(): empty tensor'')
      | x # xs \<Rightarrow> Inr (foldl s_max (s_abs x) (map s_abs xs)))"

text \<open>
  Lines 299 to 303 (and 388 to 392): both masks are taken first, then
  \<^verbatim>\<open>wav[mask_nan] = 0\<close> and \<^verbatim>\<open>wav[mask_inf] = 1\<close>. An infinite sample of either sign
  becomes \<open>1\<close>.
\<close>

definition sanitize_sample :: "sample \<Rightarrow> sample" where
  "sanitize_sample s = (if isinf s then Fin 1 else if isnan s then Fin 0 else s)"

definition sanitize :: "tensor \<Rightarrow> tensor" where
  "sanitize t = map (map sanitize_sample) t"

text \<open>Lines 299 to 306: the first pass. The division by the peak has no guard.\<close>

definition first_pass :: "tensor \<Rightarrow> error + tensor" where
  "first_pass wav =
     (let wav1 = sanitize wav in
      case abs_max wav1 of
        Inl e \<Rightarrow> Inl e
      | Inr wav_amp \<Rightarrow> Inr (divide wav1 wav_amp))"

text \<open>Lines 388 to 396: the second pass, on \<^verbatim>\<open>wav\<close>; here the division is guarded by
  \<^verbatim>\<open>if wav_amp != 0\<close>.\<close>

definition second_pass :: "tensor \<Rightarrow> error + tensor" where
  "second_pass wav =
     (let wav1 = sanitize wav in
      case abs_max wav1 of
        Inl e \<Rightarrow> Inl e
      | Inr wav_amp \<Rightarrow> Inr (if wav_amp = Fin 0 then wav1 else divide wav1 wav_amp))"

text \<open>
  An assignment \<^verbatim>\<open>output[i, :] = v\<close> into a slot of \<open>c\<close> channels and \<open>l\<close> samples:
  torch broadcasts an axis of extent one and raises on any other mismatch.
\<close>

definition stretch :: "nat \<Rightarrow> 'a list \<Rightarrow> 'a list" where
  "stretch n xs = (if length xs = n then xs else replicate n (hd xs))"

definition assign_row :: "nat \<Rightarrow> nat \<Rightarrow> tensor \<Rightarrow> error + tensor" where
  "assign_row c l v =
     (if (length v = c \<or> length v = 1) \<and> list_all (\<lambda>r. length r = l \<or> length r = 1) v
      then Inr (stretch c (map (stretch l) v))
      else Inl (RuntimeError ''shape mismatch''))"

text \<open>
  Lines 316 and 376 to 385, the mix-down. \<^verbatim>\<open>wav_length\<close> is the time extent of the
  generated waveform itself. \<^verbatim>\<open>wav\<close> is reassigned on line 381, and line 384 applies the
  same expression to the reassigned value with the peak taken on line 378.
  \<^verbatim>\<open>torch.zeros(2, wav.size())\<close> is read as a buffer of two rows, each of the shape of
  \<^verbatim>\<open>wav\<close>.
\<close>

definition mixdown :: "tensor \<Rightarrow> tensor \<Rightarrow> error + (tensor \<times> tensor list)" where
  "mixdown wav vocal =
     (let wav_length = last_dim wav in
      case abs_max wav of
        Inl e \<Rightarrow> Inl e
      | Inr wav_amp \<Rightarrow>
     (case abs_max vocal of
        Inl e \<Rightarrow> Inl e
      | Inr vocal_amp \<Rightarrow>
     (let wav2 = quarter (trunc wav_length (divide wav wav_amp)) in
      case assign_row (length wav2) (last_dim wav2)
             (quarter (trunc wav_length (divide wav2 wav_amp))) of
        Inl e \<Rightarrow> Inl e
      | Inr row0 \<Rightarrow>
     (case assign_row (length wav2) (last_dim wav2)
             (quarter (trunc wav_length (divide vocal vocal_amp))) of
        Inl e \<Rightarrow> Inl e
      | Inr row1 \<Rightarrow> Inr (wav2, [row0, row1])))))"

section \<open>Beat-sync threshold\<close>

text \<open>\<^verbatim>\<open>int(x)\<close> on a number: truncation towards zero.\<close>

definition py_int :: "real \<Rightarrow> int" where
  "py_int x = (if 0 \<le> x then \<lfloor>x\<rfloor> else \<lceil>x\<rceil>)"

text \<open>\<^verbatim>\<open>not beat_sync_threshold or beat_sync_threshold == -1\<close>: \<^verbatim>\<open>None\<close> and \<^verbatim>\<open>0.0\<close> are
  both falsy.\<close>

definition threshold_unset :: "real option \<Rightarrow> bool" where
  "threshold_unset t = (case t of None \<Rightarrow> True | Some x \<Rightarrow> x = 0 \<or> x = - 1)"

text \<open>Lines 267 to 271. \<^verbatim>\<open>1.1/(int(bpm)/60)\<close> raises when \<^verbatim>\<open>int(bpm)\<close> is zero.\<close>

definition fallback_threshold :: "real option \<Rightarrow> error + real" where
  "fallback_threshold bpm =
     (case bpm of
        Some b \<Rightarrow>
          (if py_int b = 0 then Inl ZeroDivisionError
           else Inr ((11 / 10) / (real_of_int (py_int b) / 60)))
      | None \<Rightarrow> Inr (3 / 4))"

definition resolve_threshold :: "real option \<Rightarrow> real option \<Rightarrow> error + real" where
  "resolve_threshold beat_sync_threshold bpm =
     (if threshold_unset beat_sync_threshold then fallback_threshold bpm
      else (case beat_sync_threshold of
              Some x \<Rightarrow> Inr x
            | None \<Rightarrow> fallback_threshold bpm))"

section \<open>Seed\<close>

text \<open>
  Lines 255 and 256: \<^verbatim>\<open>if not seed or seed == -1: seed = torch.seed() % 2 ** 32 - 1\<close>.
  \<^verbatim>\<open>None\<close> and \<^verbatim>\<open>0\<close> are both falsy; \<^verbatim>\<open>%\<close> binds tighter than \<^verbatim>\<open>-\<close>. The
  value of \<^verbatim>\<open>torch.seed()\<close> is the second argument.
\<close>

definition seed_unset :: "int option \<Rightarrow> bool" where
  "seed_unset s = (case s of None \<Rightarrow> True | Some x \<Rightarrow> x = 0 \<or> x = - 1)"

definition effective_seed :: "int option \<Rightarrow> int \<Rightarrow> int" where
  "effective_seed seed torch_seed =
     (if seed_unset seed then torch_seed mod 2 ^ 32 - 1
      else (case seed of Some x \<Rightarrow> x | None \<Rightarrow> torch_seed mod 2 ^ 32 - 1))"


section \<open>The prediction call\<close>

text \<open>The parameters of \<^verbatim>\<open>predict\<close>, lines 105 to 172.\<close>

record request =
  model_version :: string
  prompt :: "string option"
  music_input :: "string option"
  multi_band_diffusion :: bool
  normalization_strategy :: string
  beat_sync_threshold :: "real option"
  large_chord_voca :: bool
  chroma_coefficient :: real
  top_k :: int
  top_p :: real
  temperature :: real
  classifier_free_guidance :: int
  output_format :: string
  return_instrumental :: bool
  seed :: "int option"

text \<open>
  What the collaborators outside this file answer during one call: the checkpoint's
  configuration, the downloader, the random source, the structure analysis, the audio
  loader, the separator, the generator, the diffusion decoder and the transcoder.
\<close>

record env =
  ckpt_n_q :: "string \<Rightarrow> int"
  pget_ok :: bool
  sample_rate :: nat
  torch_seed :: int
  bpm :: "real option"
  input_samples :: nat
  sr :: nat
  vocal :: tensor
  generated :: tensor
  mbd_wav :: tensor
  ffmpeg_ok :: "string \<Rightarrow> string \<Rightarrow> bool"

datatype rng = PyRandom | PyHashSeed | NumpyRandom | TorchManual | TorchCuda

text \<open>The effects of one call, in the order they happen. A buffer handed to
  \<^verbatim>\<open>audio_write\<close> is recorded as the list of its blocks of shape (channels, time): one
  block for a clip, two for the output bundle.\<close>

datatype event =
    Rmtree string
  | Pget string
  | LoadCkpt string
  | SmallVoca
  | ChromaCoefficient real
  | Seed rng int
  | CudnnDeterministic
  | Analyze
  | Separate
  | GenerationParams real
  | Generate
  | MbdDecode
  | AudioWrite string "tensor list"
  | Ffmpeg string string
  | Remove string

text \<open>The steps that spend model computation on the input.\<close>

fun is_compute :: "event \<Rightarrow> bool" where
  "is_compute Analyze = True"
| "is_compute Separate = True"
| "is_compute Generate = True"
| "is_compute MbdDecode = True"
| "is_compute _ = False"

text \<open>The working directory (its file names, relative to \<^verbatim>\<open>/src\<close>) and the effects
  so far.\<close>

record world =
  files :: "string list"
  log :: "event list"

definition emit :: "event \<Rightarrow> world \<Rightarrow> world" where
  "emit ev w = w\<lparr>log := log w @ [ev]\<rparr>"

definition create :: "string \<Rightarrow> world \<Rightarrow> world" where
  "create f w = (if f \<in> set (files w) then w else w\<lparr>files := files w @ [f]\<rparr>)"

text \<open>\<^verbatim>\<open>if os.path.isdir(d): shutil.rmtree(d)\<close>.\<close>

definition rmtree_if_present :: "string \<Rightarrow> world \<Rightarrow> world" where
  "rmtree_if_present d w =
     (if d \<in> set (files w) then emit (Rmtree d) (w\<lparr>files := removeAll d (files w)\<rparr>) else w)"

text \<open>\<^verbatim>\<open>os.remove(f)\<close> raises when the file is not there.\<close>

definition os_remove :: "string \<Rightarrow> world \<Rightarrow> (error + unit) \<times> world" where
  "os_remove f w =
     (if f \<in> set (files w)
      then (Inr (), emit (Remove f) (w\<lparr>files := removeAll f (files w)\<rparr>))
      else (Inl (FileNotFoundError f), w))"

text \<open>\<^verbatim>\<open>subprocess.call(["ffmpeg", "-i", src, dst])\<close>: the exit status is not looked at.
  The transcoder writes \<open>dst\<close> when \<open>src\<close> is there and the run goes well.\<close>

definition ffmpeg :: "env \<Rightarrow> string \<Rightarrow> string \<Rightarrow> world \<Rightarrow> world" where
  "ffmpeg en src dst w =
     emit (Ffmpeg src dst)
       (if src \<in> set (files w) \<and> ffmpeg_ok en src dst then create dst w else w)"

text \<open>\<^verbatim>\<open>audio_write(stem, buffer, ...)\<close> of audiocraft writes \<^verbatim>\<open>stem.wav\<close>. What
  it does with the buffer (its own checks, the loudness strategy, the encoding) lies
  outside predict.py; the buffer handed over is recorded as it is.\<close>

definition audio_write :: "string \<Rightarrow> tensor list \<Rightarrow> world \<Rightarrow> world" where
  "audio_write stem buf w = create (stem @ ''.wav'') (emit (AudioWrite stem buf) w)"

text \<open>Lines 491 to 497.\<close>

definition set_all_seeds :: "int \<Rightarrow> world \<Rightarrow> world" where
  "set_all_seeds s w =
     emit CudnnDeterministic
       (emit (Seed TorchCuda s)
         (emit (Seed TorchManual s)
           (emit (Seed NumpyRandom s)
             (emit (Seed PyHashSeed s)
               (emit (Seed PyRandom s) w)))))"

text \<open>Lines 187 to 190.\<close>

definition check_inputs :: "request \<Rightarrow> error + string" where
  "check_inputs rq =
     (case prompt rq of
        None \<Rightarrow> Inl (ValueError ''Must provide `prompt`.'')
      | Some p \<Rightarrow>
     (case music_input rq of
        None \<Rightarrow> Inl (ValueError ''Must provide `music_input`.'')
      | Some m \<Rightarrow> Inr m))"

definition weights_file :: "request \<Rightarrow> string" where
  "weights_file rq = ''musicgen-'' @ model_version rq @ ''.th''"

text \<open>Lines 187 to 241: validation of the inputs, clearing of the two scratch
  directories, the weights (\<^verbatim>\<open>subprocess.check_call\<close> raises when the download fails),
  the chord vocabulary, and the check of multi-band diffusion against the number of
  codebooks of the loaded checkpoint.\<close>

definition startup :: "request \<Rightarrow> env \<Rightarrow> world \<Rightarrow> (error + string) \<times> world" where
  "startup rq en w =
     (case check_inputs rq of
        Inl e \<Rightarrow> (Inl e, w)
      | Inr m \<Rightarrow>
     (let w1 = rmtree_if_present ''spec'' (rmtree_if_present ''demix'' w) in
      if weights_file rq \<in> set (files w1) \<or> pget_ok en then
        (let w2 = (if weights_file rq \<in> set (files w1) then w1
                   else create (weights_file rq) (emit (Pget (weights_file rq)) w1));
             w3 = emit (LoadCkpt (weights_file rq)) w2;
             w4 = (if large_chord_voca rq then w3 else emit SmallVoca w3)
         in if multi_band_diffusion rq \<and> ckpt_n_q en (weights_file rq) = 8
            then (Inl (ValueError ''Multi-band Diffusion only works with non-stereo models.''), w4)
            else (Inr m, w4))
      else (Inl CalledProcessError, emit (Pget (weights_file rq)) w1)))"

text \<open>Lines 253 to 292: the chroma coefficient, the seed, the structure analysis, the
  audio loader, the beat-sync threshold, the separation and the generation
  parameters. The result is the vocal stem. The BPM suffix of lines 273 and 274 only
  changes the text handed to the generator and is left out, as is the background stem,
  which is not used again.\<close>

definition prepare :: "request \<Rightarrow> env \<Rightarrow> world \<Rightarrow> (error + tensor) \<times> world" where
  "prepare rq en w =
     (let w1 = emit (ChromaCoefficient (chroma_coefficient rq)) w;
          w2 = set_all_seeds (effective_seed (seed rq) (torch_seed en)) w1;
          w3 = emit Analyze w2
      in case resolve_threshold (beat_sync_threshold rq) (bpm en) of
           Inl e \<Rightarrow> (Inl e, w3)
         | Inr threshold \<Rightarrow>
             (if sr en = 0 then (Inl ZeroDivisionError, w3)
              else
                (let duration = real (input_samples en) / real (sr en);
                     w4 = emit Separate w3;
                     w5 = audio_write ''input_vocal'' [vocal en] w4;
                     w6 = emit (GenerationParams duration) w5
                 in (Inr (vocal en), w6))))"

text \<open>Lines 294 to 297: the waveform of the generator, replaced by the one of the
  diffusion decoder when that is asked for.\<close>

definition decoded_wav :: "request \<Rightarrow> env \<Rightarrow> tensor" where
  "decoded_wav rq en = (if multi_band_diffusion rq then mbd_wav en else generated en)"

definition generate :: "request \<Rightarrow> env \<Rightarrow> world \<Rightarrow> tensor \<times> world" where
  "generate rq en w =
     (let w1 = emit Generate w in
      (decoded_wav rq en, if multi_band_diffusion rq then emit MbdDecode w1 else w1))"

text \<open>Lines 299 to 404: the first pass, the write of the background, the mix-down,
  the second pass (whose result is not used again) and the write of the output
  bundle.\<close>

definition postprocess :: "tensor \<Rightarrow> tensor \<Rightarrow> world \<Rightarrow> (error + unit) \<times> world" where
  "postprocess wav vocal_stem w =
     (case first_pass wav of
        Inl e \<Rightarrow> (Inl e, w)
      | Inr wav1 \<Rightarrow>
     (let w1 = audio_write ''background'' [wav1] w in
      case mixdown wav1 vocal_stem of
        Inl e \<Rightarrow> (Inl e, w1)
      | Inr (wav2, output) \<Rightarrow>
     (case second_pass wav2 of
        Inl e \<Rightarrow> (Inl e, w1)
      | Inr wav3 \<Rightarrow> (Inr (), audio_write ''out'' output w1))))"

text \<open>Lines 405 to 415: the main mix.\<close>

definition deliver_main :: "request \<Rightarrow> env \<Rightarrow> world \<Rightarrow> (error + string) \<times> world" where
  "deliver_main rq en w =
     (if output_format rq = ''mp3'' then
        (let w1 = (if ''out.mp3'' \<in> set (files w) then snd (os_remove ''out.mp3'' w) else w);
             w2 = ffmpeg en ''out.wav'' ''out.mp3'' w1
         in case os_remove ''out.wav'' w2 of
              (Inl e, w3) \<Rightarrow> (Inl e, w3)
            | (Inr u, w3) \<Rightarrow> (Inr ''out.mp3'', w3))
      else (Inr ''out.wav'', w))"

text \<open>Lines 419 to 431: the instrumental. The file tested and removed before the
  transcoding on lines 424 and 425 is \<^verbatim>\<open>mp3_path\<close>, the main mix.\<close>

definition deliver_instrumental :: "request \<Rightarrow> env \<Rightarrow> world \<Rightarrow> (error + string list) \<times> world" where
  "deliver_instrumental rq en w =
     (if return_instrumental rq then
        (if output_format rq = ''mp3'' then
           (let w1 = (if ''out.mp3'' \<in> set (files w) then snd (os_remove ''out.mp3'' w) else w);
                w2 = ffmpeg en ''background_synced.wav'' ''background_synced.mp3'' w1
            in case os_remove ''background_synced.wav'' w2 of
                 (Inl e, w3) \<Rightarrow> (Inl e, w3)
               | (Inr u, w3) \<Rightarrow> (Inr [''background_synced.mp3''], w3))
         else (Inr [''background_synced.wav''], w))
      else (Inr [], w))"

text \<open>The whole of \<^verbatim>\<open>predict\<close>: the returned paths or the exception raised, and the
  working directory and effects at that point.\<close>

definition run :: "request \<Rightarrow> env \<Rightarrow> world \<Rightarrow> (error + string list) \<times> world" where
  "run rq en w =
     (case startup rq en w of
        (Inl e, w1) \<Rightarrow> (Inl e, w1)
      | (Inr m, w1) \<Rightarrow>
     (case prepare rq en w1 of
        (Inl e, w2) \<Rightarrow> (Inl e, w2)
      | (Inr vocal_stem, w2) \<Rightarrow>
     (case generate rq en w2 of (wav, w3) \<Rightarrow>
     (case postprocess wav vocal_stem w3 of
        (Inl e, w4) \<Rightarrow> (Inl e, w4)
      | (Inr u, w4) \<Rightarrow>
     (case deliver_main rq en w4 of
        (Inl e, w5) \<Rightarrow> (Inl e, w5)
      | (Inr path, w5) \<Rightarrow>
     (case deliver_instrumental rq en w5 of
        (Inl e, w6) \<Rightarrow> (Inl e, w6)
      | (Inr extra, w6) \<Rightarrow> (Inr (path # extra), w6)))))))"

definition predict :: "request \<Rightarrow> env \<Rightarrow> string list \<Rightarrow> (error + string list) \<times> world" where
  "predict rq en fs = run rq en \<lparr>files = fs, log = []\<rparr>"

section \<open>Observations on a call\<close>




text \<open>A call used in the examples below: a mono model, an input of eight samples at
  2 Hz (four seconds), a generator running at 1 Hz that produces two samples, and a
  vocal stem of four samples.\<close>

definition demo_request :: request where
  "demo_request =
     \<lparr>model_version = ''chord'', prompt = Some ''uplifting synth pop'',
      music_input = Some ''input.wav'', multi_band_diffusion = False,
      normalization_strategy = ''loudness'', beat_sync_threshold = None,
      large_chord_voca = True, chroma_coefficient = 1, top_k = 250, top_p = 0,
      temperature = 1, classifier_free_guidance = 3, output_format = ''wav'',
      return_instrumental = False, seed = Some 42\<rparr>"

definition demo_env :: env where
  "demo_env =
     \<lparr>ckpt_n_q = (\<lambda>f. 4), pget_ok = True, sample_rate = 1, torch_seed = 5,
      bpm = Some 120, input_samples = 8, sr = 2,
      vocal = [[Fin 2, Fin 1, Fin 1, Fin 1]],
      generated = [[Fin 1, Fin (- 1 / 2)]],
      mbd_wav = [[Fin 1, Fin (- 1 / 2)]],
      ffmpeg_ok = (\<lambda>src dst. True)\<rparr>"


section \<open>Auxiliary facts\<close>


lemma log_emit [simp]: "log (emit ev w) = log w @ [ev]"
  by (simp add: emit_def)

lemma files_emit [simp]: "files (emit ev w) = files w"
  by (simp add: emit_def)

lemma log_create [simp]: "log (create f w) = log w"
  by (simp add: create_def)

lemma files_create [simp]: "set (files (create f w)) = insert f (set (files w))"
  by (auto simp add: create_def)

lemma log_rmtree:
  "log (rmtree_if_present d w) = log w @ (if d \<in> set (files w) then [Rmtree d] else [])"
  by (simp add: rmtree_if_present_def)

lemma files_rmtree [simp]: "set (files (rmtree_if_present d w)) = set (files w) - {d}"
  by (auto simp add: rmtree_if_present_def)

lemma compute_rmtree [simp]:
  "filter is_compute (log (rmtree_if_present d w)) = filter is_compute (log w)"
  by (simp add: log_rmtree)

lemma weights_file_neq [simp]: "weights_file rq \<noteq> ''demix''" "weights_file rq \<noteq> ''spec''"
  by (simp_all add: weights_file_def)

lemma startup_compute:
  "filter is_compute (log (snd (startup rq en w))) = filter is_compute (log w)"
  by (cases "check_inputs rq") (simp_all add: startup_def Let_def)

lemma run_startup_error:
  "fst (startup rq en w) = Inl e \<Longrightarrow> run rq en w = (Inl e, snd (startup rq en w))"
  by (cases "startup rq en w") (simp add: run_def)

lemma startup_mbd_stereo:
  assumes "multi_band_diffusion rq" and "ckpt_n_q en (weights_file rq) = 8"
  shows "\<exists>e. fst (startup rq en w) = Inl e"
  using assms by (cases "check_inputs rq") (simp_all add: startup_def Let_def)

lemma startup_mbd_stereo_value_error:
  assumes "multi_band_diffusion rq" and "ckpt_n_q en (weights_file rq) = 8"
    and "weights_file rq \<in> set (files w) \<or> pget_ok en"
  shows "\<exists>msg. fst (startup rq en w) = Inl (ValueError msg)"
proof (cases "check_inputs rq")
  case (Inl e)
  then obtain msg where "e = ValueError msg"
    by (auto simp add: check_inputs_def split: option.splits)
  with Inl show ?thesis by (simp add: startup_def)
next
  case (Inr m)
  with assms show ?thesis
    by (auto simp add: startup_def Let_def)
qed

lemma log_audio_write [simp]: "log (audio_write stem buf w) = log w @ [AudioWrite stem buf]"
  by (simp add: audio_write_def)

lemma log_ffmpeg [simp]: "log (ffmpeg en src dst w) = log w @ [Ffmpeg src dst]"
  by (simp add: ffmpeg_def)



lemma startup_prefix: "prefix (log w) (log (snd (startup rq en w)))"
  by (cases "check_inputs rq") (simp_all add: startup_def Let_def log_rmtree)








lemma length_stretch [simp]: "length (stretch n xs) = n"
  by (simp add: stretch_def)


lemma abs_max_nonempty: "abs_max t = Inr a \<Longrightarrow> t \<noteq> []"
  by (auto simp add: abs_max_def)

lemma last_dim_map [simp]: "last_dim (map (map f) t) = last_dim t"
  by (cases t) (simp_all add: last_dim_def)

lemma last_dim_trunc: "last_dim (trunc (last_dim t) t) = last_dim t"
  by (cases t) (simp_all add: last_dim_def trunc_def)

lemma last_dim_wav2 [simp]:
  "last_dim (quarter (trunc (last_dim wav) (divide wav a))) = last_dim wav"
  using last_dim_trunc [of "divide wav a"]
  by (simp add: quarter_def divide_def)






lemmas demo_defs = demo_request_def demo_env_def





section \<open>Multi-band diffusion against a stereo checkpoint\<close>

text \<open>
  C3. When multi-band diffusion is requested and the loaded checkpoint is a stereo one
  (line 240 recognises it by its eight codebooks), the call ends in an exception and no
  analysis, separation, generation or diffusion decoding has taken place, whatever the
  other parameters are. Whenever the weights are at hand or can be fetched, the
  exception is a \<^verbatim>\<open>ValueError\<close>: the one of line 241, or one of the two of lines 187
  to 190 when the prompt or the input is missing.
\<close>

theorem mbd_on_stereo_rejected:
  assumes "multi_band_diffusion rq" and "ckpt_n_q en (weights_file rq) = 8"
  shows "(\<exists>e. fst (predict rq en fs) = Inl e)
       \<and> filter is_compute (log (snd (predict rq en fs))) = []
       \<and> (weights_file rq \<in> set fs \<or> pget_ok en
            \<longrightarrow> (\<exists>msg. fst (predict rq en fs) = Inl (ValueError msg)))"
proof -
  let ?w = "\<lparr>files = fs, log = []\<rparr>"
  obtain e where e: "fst (startup rq en ?w) = Inl e"
    using startup_mbd_stereo [OF assms] by blast
  then have r: "predict rq en fs = (Inl e, snd (startup rq en ?w))"
    by (simp add: predict_def run_startup_error)
  have "filter is_compute (log (snd (startup rq en ?w))) = []"
    by (simp add: startup_compute)
  moreover have "\<exists>msg. e = ValueError msg" if "weights_file rq \<in> set fs \<or> pget_ok en"
    using startup_mbd_stereo_value_error [OF assms, of ?w] that e by simp
  ultimately show ?thesis using r by simp
qed

theorem mbd_on_stereo_rejected_witness:
  "multi_band_diffusion (demo_request\<lparr>multi_band_diffusion := True\<rparr>)
   \<and> ckpt_n_q (demo_env\<lparr>ckpt_n_q := \<lambda>f. 8\<rparr>)
        (weights_file (demo_request\<lparr>multi_band_diffusion := True\<rparr>)) = 8
   \<and> pget_ok (demo_env\<lparr>ckpt_n_q := \<lambda>f. 8\<rparr>)
   \<and> (\<exists>msg. fst (predict (demo_request\<lparr>multi_band_diffusion := True\<rparr>)
                  (demo_env\<lparr>ckpt_n_q := \<lambda>f. 8\<rparr>) []) = Inl (ValueError msg))
   \<and> filter is_compute
        (log (snd (predict (demo_request\<lparr>multi_band_diffusion := True\<rparr>)
                     (demo_env\<lparr>ckpt_n_q := \<lambda>f. 8\<rparr>) []))) = []"
  using mbd_on_stereo_rejected
    [of "demo_request\<lparr>multi_band_diffusion := True\<rparr>" "demo_env\<lparr>ckpt_n_q := \<lambda>f. 8\<rparr>" "[]"]
  by (simp add: demo_defs)

section \<open>The beat-sync threshold\<close>

text \<open>
  C8. When the caller leaves the beat-sync threshold at \<^verbatim>\<open>None\<close> or gives \<^verbatim>\<open>-1\<close>: with
  no BPM from the structure analysis the threshold is exactly 0.75, and with a BPM of
  120 it is 1.1/(120/60), which is 0.55.
\<close>

theorem fallback_beat_sync_threshold:
  assumes "t = None \<or> t = Some (- 1)"
  shows "resolve_threshold t None = Inr (3 / 4)
       \<and> resolve_threshold t (Some 120) = Inr ((11 / 10) / (120 / 60))
       \<and> (11 / 10) / (120 / 60) = (55 / 100 :: real)"
  using assms
  by (auto simp add: resolve_threshold_def threshold_unset_def fallback_threshold_def py_int_def)

theorem fallback_beat_sync_threshold_witness:
  "resolve_threshold (Some (- 1)) None = Inr (3 / 4)
     \<and> resolve_threshold (Some (- 1)) (Some 120) = Inr ((11 / 10) / (120 / 60))
     \<and> (11 / 10) / (120 / 60) = (55 / 100 :: real)"
  using fallback_beat_sync_threshold [of "Some (- 1)"] by simp



section \<open>Output length\<close>




section \<open>Non-finite samples and peak normalisation\<close>


text \<open>
  C5. Every peak normalisation should divide only by a peak other than zero. The first
  pass (lines 305 and 306) divides a waveform of zeros by its peak 0, and every sample
  becomes a value that is not a number; the second pass (lines 394 to 396), which has
  the guard, leaves the same waveform as it is.
\<close>

theorem first_pass_divides_by_zero:
  "first_pass [[Fin 0, Fin 0]] = Inr [[NaN, NaN]]
   \<and> second_pass [[Fin 0, Fin 0]] = Inr [[Fin 0, Fin 0]]"
  by (simp add: first_pass_def second_pass_def sanitize_def sanitize_sample_def abs_max_def
      divide_def)

section \<open>The returned paths\<close>



section \<open>The two rows of the output bundle\<close>


section \<open>The seed\<close>




end
